theory Spec2Isabelle
  imports Complex_Main
begin

section \<open>Python values used by \<open>IndicTransToolkit/example.py\<close>\<close>

text \<open>
  Exceptions are values. \<open>KeyError\<close> (a failed dictionary lookup) and \<open>ValueError\<close>
  (\<open>range\<close> with step zero) are the two the interpreter raises inside the functions
  modelled here; \<open>LibraryError\<close> stands for whatever a third-party call raises
  (tokenizer, model, splitter). The remaining three constructors are the error taxonomy of
  the specification; no function of the source constructs them.
\<close>

datatype exn =
    is_KeyError: KeyError string
  | is_ValueError: ValueError string
  | is_LibraryError: LibraryError string
  | is_UnsupportedLanguageError: UnsupportedLanguageError string
  | is_ModelInvocationError: ModelInvocationError nat exn
  | is_ConfigurationError: ConfigurationError string

text \<open>The FLORES language code mapping, a dictionary from language tag to ISO code.\<close>

definition flores_codes :: "string \<rightharpoonup> string" where
  "flores_codes = map_of
    [(''asm_Beng'', ''as''), (''awa_Deva'', ''hi''), (''ben_Beng'', ''bn''),
     (''bho_Deva'', ''hi''), (''brx_Deva'', ''hi''), (''doi_Deva'', ''hi''),
     (''eng_Latn'', ''en''), (''gom_Deva'', ''kK''), (''guj_Gujr'', ''gu''),
     (''hin_Deva'', ''hi''), (''hne_Deva'', ''hi''), (''kan_Knda'', ''kn''),
     (''kas_Arab'', ''ur''), (''kas_Deva'', ''hi''), (''kha_Latn'', ''en''),
     (''lus_Latn'', ''en''), (''mag_Deva'', ''hi''), (''mai_Deva'', ''hi''),
     (''mal_Mlym'', ''ml''), (''mar_Deva'', ''mr''), (''mni_Beng'', ''bn''),
     (''mni_Mtei'', ''hi''), (''npi_Deva'', ''ne''), (''ory_Orya'', ''or''),
     (''pan_Guru'', ''pa''), (''san_Deva'', ''hi''), (''sat_Olck'', ''or''),
     (''snd_Arab'', ''ur''), (''snd_Deva'', ''hi''), (''tam_Taml'', ''ta''),
     (''tel_Telu'', ''te''), (''urd_Arab'', ''ur'')]"

text \<open>\<open>d[k]\<close>: a missing key raises \<open>KeyError\<close> carrying the key.\<close>

definition getitem :: "(string \<rightharpoonup> 'v) \<Rightarrow> string \<Rightarrow> exn + 'v" where
  "getitem d k = (case d k of None \<Rightarrow> Inl (KeyError k) | Some v \<Rightarrow> Inr v)"

text \<open>
  \<open>str.replace(old, new)\<close>: scans left to right and replaces every non-overlapping
  occurrence of \<open>old\<close>; with an empty \<open>old\<close> it puts \<open>new\<close> before every character
  and at the end.
\<close>

fun replace :: "string \<Rightarrow> string \<Rightarrow> string \<Rightarrow> string" where
  "replace old new [] = (if old = [] then new else [])"
| "replace old new (c # s) =
     (if old = [] then new @ c # replace old new s
      else if take (length old) (c # s) = old
        then new @ replace old new (drop (length old) (c # s))
      else c # replace old new s)"

text \<open>The soft hyphen U+00AD, written \<open>"\xad"\<close> in the source.\<close>

definition soft_hyphen :: char where
  "soft_hyphen = CHR 0xAD"

section \<open>Paragraph splitting\<close>

text \<open>
  The three segmentation libraries are collaborators: \<open>sent_tokenize\<close> (NLTK),
  \<open>MosesSentenceSplitter(code)\<close> applied to a list of texts, and \<open>sentence_split\<close>
  (Indic NLP, with the language code; the delimiter pattern is the constant
  \<open>DELIM_PAT_NO_DANDA\<close>). Each may raise.
\<close>

record splitters =
  sent_tokenize :: "string \<Rightarrow> exn + string list"
  MosesSentenceSplitter :: "string \<Rightarrow> string list \<Rightarrow> exn + string list"
  sentence_split :: "string \<Rightarrow> string \<Rightarrow> exn + string list"

definition split_sentences :: "splitters \<Rightarrow> string \<Rightarrow> string \<Rightarrow> exn + string list" where
  "split_sentences sp input_text lang =
     (if lang = ''eng_Latn'' then
        (case sent_tokenize sp input_text of Inl e \<Rightarrow> Inl e | Inr _ \<Rightarrow>
         case getitem flores_codes lang of Inl e \<Rightarrow> Inl e | Inr code \<Rightarrow>
         case MosesSentenceSplitter sp code [input_text] of Inl e \<Rightarrow> Inl e | Inr sents_moses \<Rightarrow>
         case sent_tokenize sp input_text of Inl e \<Rightarrow> Inl e | Inr sents_nltk \<Rightarrow>
           Inr (map (replace [soft_hyphen] [])
                  (if length sents_nltk < length sents_moses then sents_nltk else sents_moses)))
      else
        (case getitem flores_codes lang of Inl e \<Rightarrow> Inl e | Inr code \<Rightarrow>
           sentence_split sp input_text code))"

section \<open>Batch translation\<close>

text \<open>
  \<open>range(start, stop, step)\<close> as the list of its elements; step zero raises
  \<open>ValueError\<close>. The number of elements is computed as CPython does.
\<close>

definition py_range :: "int \<Rightarrow> int \<Rightarrow> int \<Rightarrow> exn + int list" where
  "py_range start stop step =
     (if step = 0 then Inl (ValueError ''range() arg 3 must not be zero'')
      else if 0 < step then
        Inr (map (\<lambda>k. start + int k * step) [0..<nat ((stop - start + step - 1) div step)])
      else
        Inr (map (\<lambda>k. start + int k * step) [0..<nat ((start - stop - step - 1) div (- step))]))"

text \<open>
  The slice \<open>xs[i:j]\<close>: a negative bound counts from the end, and both bounds are clamped
  to the list.
\<close>

definition py_slice :: "'a list \<Rightarrow> int \<Rightarrow> int \<Rightarrow> 'a list" where
  "py_slice xs i j =
     (let n = int (length xs);
          lo = (if i < 0 then max 0 (i + n) else min i n);
          hi = (if j < 0 then max 0 (j + n) else min j n)
      in take (nat (hi - lo)) (drop (nat lo) xs))"

text \<open>The keyword arguments of \<open>model.generate\<close>; the source passes literals.\<close>

record gen_kwargs =
  use_cache :: bool
  min_length :: int
  max_length :: int
  num_beams :: int
  num_return_sequences :: int

definition generation_kwargs :: gen_kwargs where
  "generation_kwargs =
     \<lparr>use_cache = False, min_length = 0, max_length = 256, num_beams = 5,
      num_return_sequences = 1\<rparr>"

text \<open>
  The collaborators of \<open>batch_translate\<close>: the processor \<open>ip\<close>, the tokenizer and the
  model. The tokenizer returns one encoded row per sentence (type \<open>'e\<close>), the model one
  generated row per encoded row (type \<open>'t\<close>). Each call may raise.
\<close>

record ('e, 't) collab =
  preprocess_batch :: "string list \<Rightarrow> string \<Rightarrow> string \<Rightarrow> exn + string list"
  tokenizer :: "string list \<Rightarrow> exn + 'e list"
  generate :: "'e list \<Rightarrow> gen_kwargs \<Rightarrow> exn + 't list"
  batch_decode :: "'t list \<Rightarrow> exn + string list"
  postprocess_batch :: "string list \<Rightarrow> string \<Rightarrow> exn + string list"

text \<open>
  The calls made to the collaborators are recorded in order, each at the moment it is
  attempted, so that a call that raises is in the record too.
\<close>

datatype event =
    is_Preprocess: Preprocess "string list"
  | is_Tokenize: Tokenize
  | is_Generate: Generate gen_kwargs
  | is_Decode: Decode
  | is_Postprocess: Postprocess

text \<open>One pass through the body of the \<open>for\<close> loop, for the batch already sliced.\<close>

definition loop_body ::
  "('e, 't) collab \<Rightarrow> string \<Rightarrow> string \<Rightarrow> string list \<Rightarrow> (exn + string list) \<times> event list" where
  "loop_body c src_lang tgt_lang batch =
     (case preprocess_batch c batch src_lang tgt_lang of
        Inl e \<Rightarrow> (Inl e, [Preprocess batch])
      | Inr batch' \<Rightarrow>
     (case tokenizer c batch' of
        Inl e \<Rightarrow> (Inl e, [Preprocess batch, Tokenize])
      | Inr inputs \<Rightarrow>
     (case generate c inputs generation_kwargs of
        Inl e \<Rightarrow> (Inl e, [Preprocess batch, Tokenize, Generate generation_kwargs])
      | Inr generated_tokens \<Rightarrow>
     (case batch_decode c generated_tokens of
        Inl e \<Rightarrow> (Inl e, [Preprocess batch, Tokenize, Generate generation_kwargs, Decode])
      | Inr decoded \<Rightarrow>
     (case postprocess_batch c decoded tgt_lang of
        Inl e \<Rightarrow>
          (Inl e, [Preprocess batch, Tokenize, Generate generation_kwargs, Decode, Postprocess])
      | Inr post \<Rightarrow>
          (Inr post,
           [Preprocess batch, Tokenize, Generate generation_kwargs, Decode, Postprocess]))))))"

text \<open>
  The \<open>for\<close> loop over the indices of the range, with the accumulated \<open>translations\<close>
  and the record of calls. An exception ends the loop and the accumulated list is lost.
\<close>

fun batch_loop ::
  "('e, 't) collab \<Rightarrow> int \<Rightarrow> string list \<Rightarrow> string \<Rightarrow> string \<Rightarrow> int list \<Rightarrow>
   string list \<Rightarrow> event list \<Rightarrow> (exn + string list) \<times> event list" where
  "batch_loop c B input_sentences src_lang tgt_lang [] translations tr = (Inr translations, tr)"
| "batch_loop c B input_sentences src_lang tgt_lang (i # rest) translations tr =
     (case loop_body c src_lang tgt_lang (py_slice input_sentences i (i + B)) of
        (Inl e, evs) \<Rightarrow> (Inl e, tr @ evs)
      | (Inr post, evs) \<Rightarrow>
          batch_loop c B input_sentences src_lang tgt_lang rest (translations @ post) (tr @ evs))"

text \<open>
  \<open>batch_translate\<close>, with the module constant \<open>BATCH_SIZE\<close> as the parameter \<open>B\<close>.
  The result is what the call returns or raises, paired with the record of collaborator
  calls.
\<close>

definition BATCH_SIZE :: int where
  "BATCH_SIZE = 4"

definition batch_translate ::
  "int \<Rightarrow> ('e, 't) collab \<Rightarrow> string list \<Rightarrow> string \<Rightarrow> string \<Rightarrow>
   (exn + string list) \<times> event list" where
  "batch_translate B c input_sentences src_lang tgt_lang =
     (case py_range 0 (int (length input_sentences)) B of
        Inl e \<Rightarrow> (Inl e, [])
      | Inr idxs \<Rightarrow> batch_loop c B input_sentences src_lang tgt_lang idxs [] [])"

text \<open>\<open>sep.join(xs)\<close>.\<close>

fun join :: "string \<Rightarrow> string list \<Rightarrow> string" where
  "join sep [] = []"
| "join sep [x] = x"
| "join sep (x # y # ys) = x @ sep @ join sep (y # ys)"

definition translate_paragraph ::
  "int \<Rightarrow> splitters \<Rightarrow> ('e, 't) collab \<Rightarrow> string \<Rightarrow> string \<Rightarrow> string \<Rightarrow>
   (exn + string) \<times> event list" where
  "translate_paragraph B sp c input_text src_lang tgt_lang =
     (case split_sentences sp input_text src_lang of
        Inl e \<Rightarrow> (Inl e, [])
      | Inr input_sentences \<Rightarrow>
          (case batch_translate B c input_sentences src_lang tgt_lang of
             (Inl e, tr) \<Rightarrow> (Inl e, tr)
           | (Inr translated_text, tr) \<Rightarrow> (Inr (join '' '' translated_text), tr)))"

section \<open>Model loading\<close>

text \<open>
  \<open>initialize_model_and_tokenizer\<close> is modelled by the arguments it hands to the two
  \<open>from_pretrained\<close> loaders and by what it does to the model afterwards. The two
  capability checks of the \<open>transformers\<close> library are the parameters \<open>flash_avail\<close>
  and \<open>flash_ge_2_10\<close>.
\<close>

text \<open>
  A \<open>BitsAndBytesConfig(...)\<close> is recorded as the keyword arguments the source writes
  in the constructor call, in order; what the library makes of each keyword is not
  modelled.
\<close>

datatype kwarg_value = BoolArg bool | DtypeArg string

type_synonym BitsAndBytesConfig = "(string \<times> kwarg_value) list"

record model_load =
  ckpt_dir :: string
  trust_remote_code :: bool
  attn_implementation :: string
  low_cpu_mem_usage :: bool
  quantization_config :: "BitsAndBytesConfig option"
  moved_to_device :: bool
  half_precision :: bool
  eval_mode :: bool

record tokenizer_load =
  tok_ckpt_dir :: string
  tok_trust_remote_code :: bool

definition initialize_model_and_tokenizer ::
  "bool \<Rightarrow> bool \<Rightarrow> string \<Rightarrow> string \<Rightarrow> string \<Rightarrow> tokenizer_load \<times> model_load" where
  "initialize_model_and_tokenizer flash_avail flash_ge_2_10 ckpt quantization attn =
     (let qconfig =
            (if quantization = ''4-bit'' then
               Some [(''load_in_4bit'', BoolArg True),
                     (''bnb_4bit_use_double_quant'', BoolArg True),
                     (''bnb_4bit_compute_dtype'', DtypeArg ''bfloat16'')]
             else if quantization = ''8-bit'' then
               Some [(''load_in_8bit'', BoolArg True),
                     (''bnb_8bit_use_double_quant'', BoolArg True),
                     (''bnb_8bit_compute_dtype'', DtypeArg ''bfloat16'')]
             else None);
          attn' =
            (if attn = ''flash_attention_2'' then
               (if flash_avail \<and> flash_ge_2_10 then ''flash_attention_2'' else ''eager'')
             else attn)
      in (\<lparr>tok_ckpt_dir = ckpt, tok_trust_remote_code = True\<rparr>,
          \<lparr>ckpt_dir = ckpt, trust_remote_code = True, attn_implementation = ''eager'',
           low_cpu_mem_usage = True, quantization_config = qconfig,
           moved_to_device = (qconfig = None), half_precision = (qconfig = None),
           eval_mode = True\<rparr>))"

section \<open>Observations on the record of calls\<close>

text \<open>The calls one completed pass through the loop body makes for a batch.\<close>

definition batch_events :: "string list \<Rightarrow> event list" where
  "batch_events batch =
     [Preprocess batch, Tokenize, Generate generation_kwargs, Decode, Postprocess]"

text \<open>The batches handed to \<open>preprocess_batch\<close>, in the order of the calls.\<close>

fun batches_of :: "event list \<Rightarrow> string list list" where
  "batches_of [] = []"
| "batches_of (Preprocess b # es) = b # batches_of es"
| "batches_of (_ # es) = batches_of es"

section \<open>Stub collaborators\<close>

text \<open>
  Concrete collaborators for running the functions above on explicit inputs: a model that
  uppercases ASCII letters, a model that fails on a marked sentence, and fixed segmenters.
\<close>

definition to_upper :: "char \<Rightarrow> char" where
  "to_upper ch =
     (case map_of (zip ''abcdefghijklmnopqrstuvwxyz'' ''ABCDEFGHIJKLMNOPQRSTUVWXYZ'') ch of
        Some u \<Rightarrow> u | None \<Rightarrow> ch)"

definition upper_stub :: "(string, string) collab" where
  "upper_stub =
     \<lparr>preprocess_batch = (\<lambda>b s t. Inr b), tokenizer = (\<lambda>b. Inr b),
      generate = (\<lambda>e kw. Inr (map (map to_upper) e)), batch_decode = (\<lambda>t. Inr t),
      postprocess_batch = (\<lambda>b l. Inr b)\<rparr>"

definition failing_stub :: "(string, string) collab" where
  "failing_stub =
     \<lparr>preprocess_batch = (\<lambda>b s t. Inr b), tokenizer = (\<lambda>b. Inr b),
      generate = (\<lambda>e kw. if ''boom'' \<in> set e then Inl (LibraryError ''CUDA out of memory'')
                          else Inr e),
      batch_decode = (\<lambda>t. Inr t), postprocess_batch = (\<lambda>b l. Inr b)\<rparr>"



definition whole_text_splitters :: splitters where
  "whole_text_splitters =
     \<lparr>sent_tokenize = (\<lambda>t. Inr [t]), MosesSentenceSplitter = (\<lambda>code ts. Inr ts),
      sentence_split = (\<lambda>t code. Inr [t])\<rparr>"

definition five_three_splitters :: splitters where
  "five_three_splitters =
     \<lparr>sent_tokenize = (\<lambda>t. Inr [''A.'', ''B.'', ''C.'', ''D.'', ''E.'']),
      MosesSentenceSplitter = (\<lambda>code ts. Inr [''A. B.'', ''C. D.'', ''E.'']),
      sentence_split = (\<lambda>t code. Inr [t])\<rparr>"

section \<open>Ranges, slices and the loop\<close>

lemma py_slice_nat:
  "py_slice S (int i) (int i + int b) = take b (drop i S)"
proof -
  let ?n = "length S"
  have lo: "min (int i) (int ?n) = int (min i ?n)" by simp
  have hi: "min (int i + int b) (int ?n) = int (min (i + b) ?n)" by simp
  have "py_slice S (int i) (int i + int b) =
          take (nat (int (min (i + b) ?n) - int (min i ?n))) (drop (nat (int (min i ?n))) S)"
    unfolding py_slice_def Let_def lo[symmetric] hi[symmetric] by simp
  also have "\<dots> = take (min (i + b) ?n - min i ?n) (drop (min i ?n) S)"
  proof -
    have "nat (int (min (i + b) ?n) - int (min i ?n)) = min (i + b) ?n - min i ?n"
      by linarith
    then show ?thesis by simp
  qed
  also have "\<dots> = take b (drop i S)"
  proof (cases "i \<le> ?n")
    case True
    then show ?thesis by (cases "i + b \<le> ?n") (simp_all add: min_def)
  next
    case False
    then show ?thesis by (simp add: min_def)
  qed
  finally show ?thesis .
qed

lemma py_range_pos:
  assumes "0 < b"
  shows "py_range 0 (int n) (int b) = Inr (map (\<lambda>k. int (k * b)) [0..<(n + b - 1) div b])"
proof -
  have "int n - 0 + int b - 1 = int (n + b - 1)" using assms by (simp add: of_nat_diff)
  then have "nat ((int n - 0 + int b - 1) div int b) = (n + b - 1) div b"
    by (simp only: zdiv_int[symmetric] nat_int)
  then show ?thesis using assms by (simp add: py_range_def)
qed

lemma py_range_neg:
  assumes "B < 0" "0 \<le> n"
  shows "py_range 0 n B = Inr []"
proof -
  have "(0 - n - B - 1) div (- B) \<le> (- B - 1) div (- B)"
    using assms by (intro zdiv_mono1) simp_all
  also have "(- B - 1) div (- B) = 0"
    using assms by (intro div_pos_pos_trivial) simp_all
  finally have "(0 - n - B - 1) div (- B) \<le> 0" .
  then show ?thesis using assms by (simp add: py_range_def)
qed

lemma concat_chunks:
  "concat (map (\<lambda>k. take b (drop (k * b) S)) [0..<m]) = take (m * b) S"
proof (induction m)
  case 0
  then show ?case by simp
next
  case (Suc m)
  have "Suc m * b = m * b + b" by simp
  then have "take (Suc m * b) S = take (m * b) S @ take b (drop (m * b) S)"
    by (simp only: take_add)
  with Suc show ?case by simp
qed

lemma ceil_div_cover:
  assumes "0 < b"
  shows "(n::nat) \<le> ((n + b - 1) div b) * b"
proof -
  have "(n + b - 1) mod b < b" using assms by simp
  moreover have "(n + b - 1) div b * b + (n + b - 1) mod b = n + b - 1" by simp
  ultimately show ?thesis by linarith
qed

lemma ceil_div_tight:
  assumes "0 < b"
  shows "((n + b - 1) div b) * b < (n::nat) + b"
proof -
  have "(n + b - 1) div b * b + (n + b - 1) mod b = n + b - 1" by simp
  then show ?thesis using assms by linarith
qed

lemma ceil_div_real:
  assumes "0 < b"
  shows "int ((n + b - 1) div b) = \<lceil>real n / real b\<rceil>"
proof -
  let ?m = "(n + b - 1) div b"
  have up: "real n \<le> real ?m * real b"
    using ceil_div_cover[OF assms, of n] by (metis of_nat_le_iff of_nat_mult)
  have lo: "real ?m * real b < real n + real b"
    using ceil_div_tight[OF assms, of n] by (metis of_nat_less_iff of_nat_mult of_nat_add)
  have bpos: "0 < real b" using assms by simp
  have "real n / real b \<le> real ?m" using up bpos by (simp add: pos_divide_le_eq)
  moreover have "real ?m - 1 < real n / real b"
  proof -
    have "(real ?m - 1) * real b < real n" using lo by (simp add: algebra_simps)
    then show ?thesis using bpos by (simp only: pos_less_divide_eq)
  qed
  ultimately have "\<lceil>real n / real b\<rceil> = int ?m"
    by (intro ceiling_unique) simp_all
  then show ?thesis by simp
qed

lemma loop_body_events:
  "loop_body c src tgt b = (Inr post, evs) \<Longrightarrow> evs = batch_events b"
  by (auto simp: loop_body_def batch_events_def split: sum.splits)

lemma batch_loop_trace:
  "fst (batch_loop c B S src tgt idxs acc tr) = Inr out \<Longrightarrow>
   snd (batch_loop c B S src tgt idxs acc tr) =
     tr @ concat (map (\<lambda>i. batch_events (py_slice S i (i + B))) idxs)"
proof (induction idxs arbitrary: acc tr)
  case Nil
  then show ?case by simp
next
  case (Cons i rest)
  obtain r evs where lb: "loop_body c src tgt (py_slice S i (i + B)) = (r, evs)"
    by fastforce
  show ?case
  proof (cases r)
    case (Inl e)
    with Cons.prems lb show ?thesis by simp
  next
    case (Inr post)
    with lb have evs: "evs = batch_events (py_slice S i (i + B))"
      by (simp add: loop_body_events)
    from Cons.prems lb Inr
    have "fst (batch_loop c B S src tgt rest (acc @ post) (tr @ evs)) = Inr out" by simp
    from Cons.IH[OF this] lb Inr evs show ?thesis by simp
  qed
qed

lemma batch_loop_per_sentence:
  assumes "\<And>b. loop_body c src tgt b = (Inr (map f b), batch_events b)"
  shows "batch_loop c B S src tgt idxs acc tr =
    (Inr (acc @ concat (map (\<lambda>i. map f (py_slice S i (i + B))) idxs)),
     tr @ concat (map (\<lambda>i. batch_events (py_slice S i (i + B))) idxs))"
  by (induction idxs arbitrary: acc tr) (simp_all add: assms)

lemma batch_translate_pos:
  assumes "0 < b"
  shows "batch_translate (int b) c S src tgt =
    batch_loop c (int b) S src tgt
      (map (\<lambda>k. int (k * b)) [0..<(length S + b - 1) div b]) [] []"
  by (simp add: batch_translate_def py_range_pos[OF assms])

lemma chunks_cover:
  assumes "0 < b"
  shows "concat (map (\<lambda>k. take b (drop (k * b) S)) [0..<(length S + b - 1) div b]) = S"
  using ceil_div_cover[OF assms, of "length S"] by (simp add: concat_chunks)

section \<open>Soft hyphens\<close>

lemma flores_eng: "flores_codes ''eng_Latn'' = Some ''en''"
  by (simp add: flores_codes_def)

lemma replace_single_removes: "c \<notin> set (replace [c] [] s)"
  by (induction s) auto

text \<open>
  Claim C9. For every input text in the default language \<open>eng_Latn\<close>, every segment that
  \<open>split_sentences\<close> returns is free of the soft hyphen U+00AD, whatever the two
  segmentation libraries produced.
\<close>

theorem split_sentences_no_soft_hyphen:
  assumes "split_sentences sp input_text ''eng_Latn'' = Inr segs"
  shows "\<forall>s \<in> set segs. soft_hyphen \<notin> set s"
  using assms
  by (auto simp: split_sentences_def replace_single_removes split: sum.splits if_splits)

theorem split_sentences_no_soft_hyphen_witness:
  "split_sentences whole_text_splitters (''co'' @ [soft_hyphen] @ ''operate.'') ''eng_Latn''
     = Inr [''cooperate.'']
   \<and> soft_hyphen \<in> set (''co'' @ [soft_hyphen] @ ''operate.'')
   \<and> soft_hyphen \<notin> set ''cooperate.''"
proof -
  have run: "split_sentences whole_text_splitters (''co'' @ [soft_hyphen] @ ''operate.'')
               ''eng_Latn'' = Inr [''cooperate.'']"
    by (simp add: split_sentences_def whole_text_splitters_def getitem_def flores_eng
        soft_hyphen_def)
  from split_sentences_no_soft_hyphen [OF run] run show ?thesis by simp
qed

section \<open>Batching is transparent\<close>

lemma py_slice_chunk:
  "py_slice S (int k * int b) (int k * int b + int b) = take b (drop (k * b) S)"
  using py_slice_nat[of S "k * b" b] by simp

lemma loop_body_per_sentence:
  assumes "\<And>b. preprocess_batch c b src tgt = Inr (map p b)"
      and "\<And>b. tokenizer c b = Inr (map tk b)"
      and "\<And>e. generate c e generation_kwargs = Inr (map g e)"
      and "\<And>t. batch_decode c t = Inr (map d t)"
      and "\<And>b. postprocess_batch c b tgt = Inr (map q b)"
  shows "loop_body c src tgt b = (Inr (map (\<lambda>s. q (d (g (tk (p s))))) b), batch_events b)"
  by (simp add: loop_body_def batch_events_def assms)

lemma batch_translate_per_sentence:
  assumes body: "\<And>b. loop_body c src tgt b = (Inr (map f b), batch_events b)"
      and B: "1 \<le> B"
  shows "fst (batch_translate B c S src tgt) = Inr (map f S)"
proof -
  define b where "b = nat B"
  with B have b: "0 < b" "B = int b" by simp_all
  let ?ks = "[0..<(length S + b - 1) div b]"
  have "fst (batch_translate B c S src tgt) =
          Inr (concat (map (\<lambda>i. map f (py_slice S i (i + int b))) (map (\<lambda>k. int (k * b)) ?ks)))"
    unfolding b(2) batch_translate_pos[OF b(1)] batch_loop_per_sentence[of c src tgt f, OF body]
    by simp
  also have "concat (map (\<lambda>i. map f (py_slice S i (i + int b))) (map (\<lambda>k. int (k * b)) ?ks))
             = concat (map (map f) (map (\<lambda>k. take b (drop (k * b) S)) ?ks))"
    by (simp add: py_slice_chunk comp_def)
  also have "\<dots> = map f (concat (map (\<lambda>k. take b (drop (k * b) S)) ?ks))"
    by (simp only: map_concat)
  also have "\<dots> = map f S"
    by (simp only: chunks_cover[OF b(1)])
  finally show ?thesis .
qed

text \<open>
  Claim C4. Batching is transparent: with collaborators that work sentence by sentence,
  the sequence returned by \<open>batch_translate\<close> is the same for any two batch sizes
  \<open>B1, B2 \<ge> 1\<close>. (The record of calls differs, as the witness shows.)
\<close>

theorem batching_transparent:
  assumes "\<And>b. preprocess_batch c b src tgt = Inr (map p b)"
      and "\<And>b. tokenizer c b = Inr (map tk b)"
      and "\<And>e. generate c e generation_kwargs = Inr (map g e)"
      and "\<And>t. batch_decode c t = Inr (map d t)"
      and "\<And>b. postprocess_batch c b tgt = Inr (map q b)"
      and "1 \<le> B1" and "1 \<le> B2"
  shows "fst (batch_translate B1 c S src tgt) = fst (batch_translate B2 c S src tgt)"
proof -
  have body: "\<And>b. loop_body c src tgt b = (Inr (map (\<lambda>s. q (d (g (tk (p s))))) b), batch_events b)"
    by (rule loop_body_per_sentence) (rule assms)+
  show ?thesis
    by (simp only: batch_translate_per_sentence[OF body assms(6)]
        batch_translate_per_sentence[OF body assms(7)])
qed

theorem batching_transparent_witness:
  "fst (batch_translate 1 upper_stub [''ab'', ''cd'', ''ef''] ''eng_Latn'' ''hin_Deva'')
     = fst (batch_translate 100 upper_stub [''ab'', ''cd'', ''ef''] ''eng_Latn'' ''hin_Deva'')
   \<and> snd (batch_translate 1 upper_stub [''ab'', ''cd'', ''ef''] ''eng_Latn'' ''hin_Deva'')
     \<noteq> snd (batch_translate 100 upper_stub [''ab'', ''cd'', ''ef''] ''eng_Latn'' ''hin_Deva'')"
proof -
  have "fst (batch_translate 1 upper_stub [''ab'', ''cd'', ''ef''] ''eng_Latn'' ''hin_Deva'')
     = fst (batch_translate 100 upper_stub [''ab'', ''cd'', ''ef''] ''eng_Latn'' ''hin_Deva'')"
    by (rule batching_transparent[where p = "\<lambda>s. s" and tk = "\<lambda>s. s" and g = "map to_upper"
          and d = "\<lambda>s. s" and q = "\<lambda>s. s"]) (simp_all add: upper_stub_def)
  moreover have "snd (batch_translate 1 upper_stub [''ab'', ''cd'', ''ef''] ''eng_Latn'' ''hin_Deva'')
     \<noteq> snd (batch_translate 100 upper_stub [''ab'', ''cd'', ''ef''] ''eng_Latn'' ''hin_Deva'')"
    by (simp add: batch_translate_def py_range_def py_slice_def loop_body_def upper_stub_def
        Let_def upt_rec)
  ultimately show ?thesis by blast
qed

text \<open>
  Claim C10. On the empty sentence sequence \<open>batch_translate\<close> returns the empty
  sequence and calls no collaborator at all (no preprocessing, tokenization or
  generation), for any language pair and any batch size other than zero; the module
  constant \<open>BATCH_SIZE\<close> is 4.
\<close>

theorem batch_translate_empty:
  assumes "B \<noteq> 0"
  shows "batch_translate B c [] src_lang tgt_lang = (Inr [], [])"
proof (cases "0 < B")
  case True
  then show ?thesis by (simp add: batch_translate_def py_range_def)
next
  case False
  with assms have "B < 0" by simp
  then show ?thesis by (simp add: batch_translate_def py_range_neg)
qed

theorem batch_translate_empty_witness:
  "BATCH_SIZE \<noteq> 0 \<and> batch_translate BATCH_SIZE upper_stub [] ''eng_Latn'' ''hin_Deva'' = (Inr [], [])"
proof -
  have nz: "BATCH_SIZE \<noteq> 0" by (simp add: BATCH_SIZE_def)
  from batch_translate_empty[OF nz] nz show ?thesis by simp
qed

section \<open>Chunks and model invocations\<close>

lemma batches_of_concat:
  "batches_of (concat (map (\<lambda>k. batch_events (ch k)) ks)) = map ch ks"
  by (induction ks) (simp_all add: batch_events_def)

lemma generate_count_concat:
  "length (filter is_Generate (concat (map (\<lambda>k. batch_events (ch k)) ks))) = length ks"
  by (induction ks) (simp_all add: batch_events_def)

lemma trace_of_success:
  assumes b: "0 < b" and ok: "fst (batch_translate (int b) c S src tgt) = Inr out"
  shows "snd (batch_translate (int b) c S src tgt) =
           concat (map (\<lambda>k. batch_events (take b (drop (k * b) S)))
                     [0..<(length S + b - 1) div b])"
proof -
  from ok have "snd (batch_translate (int b) c S src tgt) =
      [] @ concat (map (\<lambda>i. batch_events (py_slice S i (i + int b)))
                     (map (\<lambda>k. int (k * b)) [0..<(length S + b - 1) div b]))"
    unfolding batch_translate_pos[OF b] by (rule batch_loop_trace)
  then show ?thesis by (simp add: py_slice_chunk comp_def)
qed

lemma chunk_nonempty:
  assumes "0 < b" "k < (n + b - 1) div b"
  shows "k * b < (n::nat)"
proof -
  from assms(2) have "Suc k * b \<le> ((n + b - 1) div b) * b"
    by (intro mult_le_mono1) simp
  with ceil_div_tight[OF assms(1), of n] show ?thesis by simp
qed

lemma chunk_full:
  assumes "0 < b" "Suc k < (n + b - 1) div b"
  shows "k * b + b \<le> (n::nat)"
  using chunk_nonempty[OF assms] by simp

text \<open>
  Claim C5. For a batch size \<open>B \<ge> 1\<close> and a call that runs to completion,
  \<open>batch_translate\<close> hands to the collaborators the contiguous chunks
  \<open>S[k*B : k*B + B]\<close> of its input, in order: they concatenate to the input, none is
  empty, none is longer than \<open>B\<close>, and all but the last have exactly \<open>B\<close>
  sentences. The model is invoked once per chunk, which is
  \<open>\<lceil>length S / B\<rceil>\<close> times. The witness is the two-sentence input with batch size 1:
  two invocations.
\<close>

theorem batch_translate_chunks:
  assumes B: "1 \<le> B" and ok: "fst (batch_translate B c S src tgt) = Inr out"
  shows "batches_of (snd (batch_translate B c S src tgt)) =
           map (\<lambda>k. take (nat B) (drop (k * nat B) S)) [0..<(length S + nat B - 1) div nat B]
       \<and> concat (batches_of (snd (batch_translate B c S src tgt))) = S
       \<and> (\<forall>k < (length S + nat B - 1) div nat B.
             0 < length (take (nat B) (drop (k * nat B) S))
           \<and> length (take (nat B) (drop (k * nat B) S)) \<le> nat B
           \<and> (Suc k < (length S + nat B - 1) div nat B \<longrightarrow>
                length (take (nat B) (drop (k * nat B) S)) = nat B))
       \<and> length (filter is_Generate (snd (batch_translate B c S src tgt))) =
           length (batches_of (snd (batch_translate B c S src tgt)))
       \<and> int (length (filter is_Generate (snd (batch_translate B c S src tgt)))) =
           \<lceil>real (length S) / real_of_int B\<rceil>"
proof -
  define b where "b = nat B"
  with B have b: "0 < b" and Bb: "B = int b" by simp_all
  let ?m = "(length S + b - 1) div b"
  let ?tr = "snd (batch_translate (int b) c S src tgt)"
  have tr: "?tr = concat (map (\<lambda>k. batch_events (take b (drop (k * b) S))) [0..<?m])"
    using ok unfolding Bb by (rule trace_of_success[OF b])
  have batches: "batches_of ?tr = map (\<lambda>k. take b (drop (k * b) S)) [0..<?m]"
    unfolding tr by (rule batches_of_concat)
  have cover: "concat (batches_of ?tr) = S"
    unfolding batches by (rule chunks_cover[OF b])
  have sizes: "\<forall>k < ?m. 0 < length (take b (drop (k * b) S))
           \<and> length (take b (drop (k * b) S)) \<le> b
           \<and> (Suc k < ?m \<longrightarrow> length (take b (drop (k * b) S)) = b)"
  proof (intro allI impI conjI)
    fix k assume k: "k < ?m"
    from chunk_nonempty[OF b k] b show "0 < length (take b (drop (k * b) S))" by simp
    show "length (take b (drop (k * b) S)) \<le> b" by simp
  next
    fix k assume "Suc k < ?m"
    from chunk_full[OF b this] show "length (take b (drop (k * b) S)) = b" by simp
  qed
  have count: "length (filter is_Generate ?tr) = ?m"
    unfolding tr by (simp only: generate_count_concat length_upt diff_zero)
  have len: "length (batches_of ?tr) = ?m"
    unfolding batches by simp
  have ceil: "int (length (filter is_Generate ?tr)) = \<lceil>real (length S) / real_of_int (int b)\<rceil>"
    unfolding count using ceil_div_real[OF b, of "length S"] by simp
  from batches cover sizes count len ceil show ?thesis
    unfolding Bb by simp
qed

theorem batch_translate_chunks_witness:
  "fst (batch_translate 1 upper_stub [''Hello.'', ''How are you?''] ''eng_Latn'' ''hin_Deva'')
     = Inr [''HELLO.'', ''HOW ARE YOU?'']
   \<and> batches_of (snd (batch_translate 1 upper_stub [''Hello.'', ''How are you?'']
                        ''eng_Latn'' ''hin_Deva'')) = [[''Hello.''], [''How are you?'']]
   \<and> length (filter is_Generate (snd (batch_translate 1 upper_stub [''Hello.'', ''How are you?'']
                        ''eng_Latn'' ''hin_Deva''))) = 2"
proof -
  have run: "fst (batch_translate 1 upper_stub [''Hello.'', ''How are you?''] ''eng_Latn''
                ''hin_Deva'') = Inr [''HELLO.'', ''HOW ARE YOU?'']"
    by (simp add: batch_translate_def py_range_def py_slice_def loop_body_def upper_stub_def
        to_upper_def Let_def upt_rec)
  have one: "(1::int) \<le> 1" by simp
  from batch_translate_chunks[OF one run] run show ?thesis
    by (simp add: upt_rec)
qed

section \<open>A failing generation step\<close>

lemma batch_loop_abort:
  assumes "\<forall>i \<in> set pre. \<exists>post. fst (loop_body c src tgt (py_slice S i (i + B))) = Inr post"
      and "loop_body c src tgt (py_slice S j (j + B)) = (Inl e, evs)"
  shows "batch_loop c B S src tgt (pre @ j # rest) acc tr =
           (Inl e, tr @ concat (map (\<lambda>i. batch_events (py_slice S i (i + B))) pre) @ evs)"
  using assms(1)
proof (induction pre arbitrary: acc tr)
  case Nil
  then show ?case using assms(2) by simp
next
  case (Cons i pre)
  from Cons.prems obtain post where "fst (loop_body c src tgt (py_slice S i (i + B))) = Inr post"
    by auto
  then obtain evs' where lb: "loop_body c src tgt (py_slice S i (i + B)) = (Inr post, evs')"
    by (cases "loop_body c src tgt (py_slice S i (i + B))") simp
  then have evs': "evs' = batch_events (py_slice S i (i + B))"
    by (rule loop_body_events)
  from Cons.prems have "\<forall>i \<in> set pre. \<exists>post. fst (loop_body c src tgt (py_slice S i (i + B))) = Inr post"
    by simp
  from Cons.IH[OF this] lb evs' show ?case by simp
qed

lemma loop_body_generate_raises:
  assumes "preprocess_batch c batch src tgt = Inr batch'"
      and "tokenizer c batch' = Inr inputs"
      and "generate c inputs generation_kwargs = Inl e"
  shows "loop_body c src tgt batch =
           (Inl e, [Preprocess batch, Tokenize, Generate generation_kwargs])"
  by (simp add: loop_body_def assms)

lemma upt_split_at:
  assumes "j < m"
  shows "[0..<m] = [0..<j] @ j # [Suc j..<m]"
proof -
  have "[0..<j + (m - j)] = [0..<j] @ [j..<j + (m - j)]"
    by (rule upt_add_eq_append) simp
  moreover have "j + (m - j) = m" using assms by simp
  ultimately have "[0..<m] = [0..<j] @ [j..<m]" by simp
  also have "[j..<m] = j # [Suc j..<m]"
    using assms by (rule upt_conv_Cons)
  finally show ?thesis .
qed

lemma batch_below:
  assumes "0 < b" "j * b < (n::nat)"
  shows "j < (n + b - 1) div b"
proof (rule ccontr)
  assume "\<not> j < (n + b - 1) div b"
  then have "(n + b - 1) div b * b \<le> j * b" by (intro mult_le_mono1) simp
  with ceil_div_cover[OF assms(1), of n] assms(2) show False by linarith
qed

text \<open>
  Claim C6, as amended. Let the batch size be at least 1 and let \<open>j\<close> be the index of a
  batch of the input. If the batches before \<open>j\<close> are processed without an exception and
  on batch \<open>j\<close> the generation step raises \<open>e\<close>, then \<open>batch_translate\<close> raises
  \<open>e\<close> itself: the exception is not wrapped and carries no batch index. The call ends
  there: the model has been invoked \<open>j + 1\<close> times, later batches are never attempted, and
  the translations accumulated for the earlier batches are not returned.
\<close>

theorem generation_failure_propagates:
  assumes B: "1 \<le> B"
      and j: "j * nat B < length S"
      and earlier: "\<forall>k < j. \<exists>post.
             fst (loop_body c src tgt (take (nat B) (drop (k * nat B) S))) = Inr post"
      and pre: "preprocess_batch c (take (nat B) (drop (j * nat B) S)) src tgt = Inr batch'"
      and tok: "tokenizer c batch' = Inr inputs"
      and gen: "generate c inputs generation_kwargs = Inl e"
  shows "fst (batch_translate B c S src tgt) = Inl e
       \<and> length (filter is_Generate (snd (batch_translate B c S src tgt))) = Suc j"
proof -
  define b where "b = nat B"
  with B have b: "0 < b" and Bb: "B = int b" by simp_all
  let ?m = "(length S + b - 1) div b"
  let ?f = "\<lambda>k. int (k * b)"
  from j have jm: "j < ?m" unfolding b_def[symmetric] by (rule batch_below[OF b])
  have split: "map ?f [0..<?m] = map ?f [0..<j] @ ?f j # map ?f [Suc j..<?m]"
    by (simp only: upt_split_at[OF jm] map_append list.map)
  have fail: "loop_body c src tgt (py_slice S (?f j) (?f j + int b)) =
                (Inl e, [Preprocess (take b (drop (j * b) S)), Tokenize, Generate generation_kwargs])"
  proof -
    from pre have "preprocess_batch c (take b (drop (j * b) S)) src tgt = Inr batch'"
      unfolding b_def .
    from loop_body_generate_raises[OF this tok gen] show ?thesis
      by (simp add: py_slice_chunk)
  qed
  have before: "\<forall>i \<in> set (map ?f [0..<j]).
                  \<exists>post. fst (loop_body c src tgt (py_slice S i (i + int b))) = Inr post"
  proof -
    from earlier have "\<forall>k < j. \<exists>post.
             fst (loop_body c src tgt (take b (drop (k * b) S))) = Inr post"
      unfolding b_def .
    then show ?thesis by (auto simp: py_slice_chunk)
  qed
  have run: "batch_translate (int b) c S src tgt =
      (Inl e, [] @ concat (map (\<lambda>i. batch_events (py_slice S i (i + int b))) (map ?f [0..<j]))
                @ [Preprocess (take b (drop (j * b) S)), Tokenize, Generate generation_kwargs])"
    unfolding batch_translate_pos[OF b] split
    by (rule batch_loop_abort[OF before fail])
  have "length (filter is_Generate
          (concat (map (\<lambda>i. batch_events (py_slice S i (i + int b))) (map ?f [0..<j])))) = j"
    by (simp add: comp_def generate_count_concat)
  with run show ?thesis unfolding Bb by simp
qed

theorem generation_failure_propagates_witness:
  "fst (batch_translate 1 failing_stub [''ok'', ''boom'', ''late''] ''eng_Latn'' ''hin_Deva'')
     = Inl (LibraryError ''CUDA out of memory'')
   \<and> length (filter is_Generate
        (snd (batch_translate 1 failing_stub [''ok'', ''boom'', ''late''] ''eng_Latn'' ''hin_Deva'')))
     = 2"
proof -
  have "fst (batch_translate 1 failing_stub [''ok'', ''boom'', ''late''] ''eng_Latn'' ''hin_Deva'')
          = Inl (LibraryError ''CUDA out of memory'')
        \<and> length (filter is_Generate
            (snd (batch_translate 1 failing_stub [''ok'', ''boom'', ''late''] ''eng_Latn''
                    ''hin_Deva''))) = Suc 1"
  proof (rule generation_failure_propagates[where batch' = "[''boom'']" and inputs = "[''boom'']"])
    show "(1::int) \<le> 1" by simp
    show "1 * nat 1 < length [''ok'', ''boom'', ''late'']" by simp
    show "\<forall>k<1. \<exists>post. fst (loop_body failing_stub ''eng_Latn'' ''hin_Deva''
              (take (nat 1) (drop (k * nat 1) [''ok'', ''boom'', ''late'']))) = Inr post"
    proof (intro allI impI)
      fix k :: nat assume "k < 1"
      then have "k = 0" by simp
      then show "\<exists>post. fst (loop_body failing_stub ''eng_Latn'' ''hin_Deva''
              (take (nat 1) (drop (k * nat 1) [''ok'', ''boom'', ''late'']))) = Inr post"
        by (simp add: loop_body_def failing_stub_def)
    qed
    show "preprocess_batch failing_stub (take (nat 1) (drop (1 * nat 1) [''ok'', ''boom'', ''late'']))
            ''eng_Latn'' ''hin_Deva'' = Inr [''boom'']"
      by (simp add: failing_stub_def)
    show "tokenizer failing_stub [''boom''] = Inr [''boom'']" by (simp add: failing_stub_def)
    show "generate failing_stub [''boom''] generation_kwargs = Inl (LibraryError ''CUDA out of memory'')"
      by (simp add: failing_stub_def)
  qed
  then show ?thesis by simp
qed

text \<open>
  Claim C6 as stated fails: with a model that raises a library error on the second of
  three batches, what \<open>batch_translate\<close> raises is that library error, not a
  \<open>ModelInvocationError\<close> carrying batch index 1 and the cause.
\<close>

theorem generation_failure_not_wrapped:
  "fst (batch_translate 1 failing_stub [''ok'', ''boom'', ''late''] ''eng_Latn'' ''hin_Deva'')
     = Inl (LibraryError ''CUDA out of memory'')
   \<and> \<not> is_ModelInvocationError (LibraryError ''CUDA out of memory'')
   \<and> fst (batch_translate 1 failing_stub [''ok'', ''boom'', ''late''] ''eng_Latn'' ''hin_Deva'')
     \<noteq> Inl (ModelInvocationError 1 (LibraryError ''CUDA out of memory''))"
  by (simp add: batch_translate_def py_range_def py_slice_def loop_body_def failing_stub_def
      Let_def upt_rec)

section \<open>Configuration values\<close>

lemma loop_body_kwargs:
  "Generate kw \<in> set (snd (loop_body c src tgt batch)) \<Longrightarrow> kw = generation_kwargs"
  by (auto simp: loop_body_def split: sum.splits)

lemma batch_loop_kwargs:
  "Generate kw \<in> set (snd (batch_loop c B S src tgt idxs acc tr)) \<Longrightarrow>
   Generate kw \<in> set tr \<or> kw = generation_kwargs"
proof (induction idxs arbitrary: acc tr)
  case Nil
  then show ?case by simp
next
  case (Cons i rest)
  obtain r evs where lb: "loop_body c src tgt (py_slice S i (i + B)) = (r, evs)"
    by fastforce
  then have evs: "Generate kw \<in> set evs \<Longrightarrow> kw = generation_kwargs"
    using loop_body_kwargs[of kw c src tgt "py_slice S i (i + B)"] by simp
  show ?case
  proof (cases r)
    case (Inl e)
    with Cons.prems lb evs show ?thesis by auto
  next
    case (Inr post)
    with Cons.prems lb
    have "Generate kw \<in> set (snd (batch_loop c B S src tgt rest (acc @ post) (tr @ evs)))"
      by simp
    from Cons.IH[OF this] evs show ?thesis by auto
  qed
qed

text \<open>
  Claim C7, as amended. The batch size is the only one of the three values that reaches
  \<open>batch_translate\<close> from outside, and it is not validated: with batch size zero the
  call fails with the \<open>ValueError\<close> of \<open>range\<close>, and with a negative batch size it
  returns the empty sequence without any error; in both cases no collaborator is called.
  Beam width and maximum length are literals of the source: every generation call is made
  with \<open>num_beams = 5\<close> and \<open>max_length = 256\<close>.
\<close>

theorem nonpositive_batch_size:
  "(B \<le> 0 \<longrightarrow>
      batch_translate B c S src tgt =
        (if B = 0 then Inl (ValueError ''range() arg 3 must not be zero'') else Inr [], []))
   \<and> (Generate kw \<in> set (snd (batch_translate B' c' S' src' tgt')) \<longrightarrow>
        num_beams kw = 5 \<and> max_length kw = 256)"
proof (intro conjI impI)
  assume "B \<le> 0"
  then show "batch_translate B c S src tgt =
        (if B = 0 then Inl (ValueError ''range() arg 3 must not be zero'') else Inr [], [])"
    by (cases "B = 0") (simp_all add: batch_translate_def py_range_neg, simp add: py_range_def)
next
  assume g: "Generate kw \<in> set (snd (batch_translate B' c' S' src' tgt'))"
  have "kw = generation_kwargs"
  proof (cases "py_range 0 (int (length S')) B'")
    case (Inl e)
    with g show ?thesis by (simp add: batch_translate_def)
  next
    case (Inr idxs)
    with g have "Generate kw \<in> set (snd (batch_loop c' B' S' src' tgt' idxs [] []))"
      by (simp add: batch_translate_def)
    from batch_loop_kwargs[OF this] show ?thesis by simp
  qed
  then show "num_beams kw = 5" "max_length kw = 256"
    by (simp_all add: generation_kwargs_def)
qed

theorem nonpositive_batch_size_witness:
  "batch_translate (- 1) upper_stub [''Hello.''] ''eng_Latn'' ''hin_Deva'' = (Inr [], [])
   \<and> batch_translate 0 upper_stub [''Hello.''] ''eng_Latn'' ''hin_Deva''
       = (Inl (ValueError ''range() arg 3 must not be zero''), [])
   \<and> Generate generation_kwargs
       \<in> set (snd (batch_translate 4 upper_stub [''Hello.''] ''eng_Latn'' ''hin_Deva''))
   \<and> num_beams generation_kwargs = 5 \<and> max_length generation_kwargs = 256"
proof -
  have g: "Generate generation_kwargs
       \<in> set (snd (batch_translate 4 upper_stub [''Hello.''] ''eng_Latn'' ''hin_Deva''))"
    by (simp add: batch_translate_def py_range_def py_slice_def loop_body_def upper_stub_def
        Let_def upt_rec)
  from nonpositive_batch_size[of "- 1" upper_stub "[''Hello.'']" "''eng_Latn''" "''hin_Deva''"
        generation_kwargs 4 upper_stub "[''Hello.'']" "''eng_Latn''" "''hin_Deva''"]
       nonpositive_batch_size[of 0 upper_stub "[''Hello.'']" "''eng_Latn''" "''hin_Deva''"
        generation_kwargs 4 upper_stub "[''Hello.'']" "''eng_Latn''" "''hin_Deva''"]
       g
  show ?thesis by simp
qed

text \<open>
  Claim C7 as stated fails: with batch size \<open>-1\<close> the call on a one-sentence input
  succeeds with an empty result, and with batch size \<open>0\<close> what is raised is a
  \<open>ValueError\<close>, not a \<open>ConfigurationError\<close>.
\<close>

theorem nonpositive_batch_size_no_ConfigurationError:
  "batch_translate (- 1) upper_stub [''Hello.''] ''eng_Latn'' ''hin_Deva'' = (Inr [], [])
   \<and> fst (batch_translate 0 upper_stub [''Hello.''] ''eng_Latn'' ''hin_Deva'')
       = Inl (ValueError ''range() arg 3 must not be zero'')
   \<and> \<not> is_ConfigurationError (ValueError ''range() arg 3 must not be zero'')"
  by (simp add: batch_translate_def py_range_def)

section \<open>Choice between the two segmentations\<close>

text \<open>
  Claim C1, as amended. For every input text in the default language \<open>eng_Latn\<close> on
  which both segmenters return, \<open>split_sentences\<close> applies both and returns the
  segmentation with the smaller number of segments, with the soft hyphens removed: the one
  of NLTK when it is strictly shorter, the one of Moses otherwise (ties included). The
  length of the result is the minimum of the two lengths.
\<close>

theorem split_sentences_fewer_segments:
  assumes "sent_tokenize sp input_text = Inr sents_nltk"
      and "MosesSentenceSplitter sp ''en'' [input_text] = Inr sents_moses"
  shows "split_sentences sp input_text ''eng_Latn'' =
           Inr (map (replace [soft_hyphen] [])
                  (if length sents_nltk < length sents_moses then sents_nltk else sents_moses))
       \<and> (\<exists>segs. split_sentences sp input_text ''eng_Latn'' = Inr segs
              \<and> length segs = min (length sents_nltk) (length sents_moses))"
  using assms by (simp add: split_sentences_def getitem_def flores_eng)

theorem split_sentences_fewer_segments_witness:
  "split_sentences five_three_splitters ''A. B. C. D. E.'' ''eng_Latn''
     = Inr (map (replace [soft_hyphen] []) [''A. B.'', ''C. D.'', ''E.''])
   \<and> min (length [''A.'', ''B.'', ''C.'', ''D.'', ''E.''])
          (length [''A. B.'', ''C. D.'', ''E.'']) = (3::nat)"
proof -
  have n: "sent_tokenize five_three_splitters ''A. B. C. D. E.''
             = Inr [''A.'', ''B.'', ''C.'', ''D.'', ''E.'']"
    by (simp add: five_three_splitters_def)
  have m: "MosesSentenceSplitter five_three_splitters ''en'' [''A. B. C. D. E.'']
             = Inr [''A. B.'', ''C. D.'', ''E.'']"
    by (simp add: five_three_splitters_def)
  from split_sentences_fewer_segments[OF n m] show ?thesis by simp
qed

text \<open>
  Claim C1 as stated fails: when the general tokenizer yields 5 segments and the Moses
  splitter yields 3, the result is the segmentation with 3 segments, not the one with 5.
\<close>

theorem split_sentences_five_three:
  "sent_tokenize five_three_splitters ''A. B. C. D. E.''
     = Inr [''A.'', ''B.'', ''C.'', ''D.'', ''E.'']
   \<and> MosesSentenceSplitter five_three_splitters ''en'' [''A. B. C. D. E.'']
     = Inr [''A. B.'', ''C. D.'', ''E.'']
   \<and> split_sentences five_three_splitters ''A. B. C. D. E.'' ''eng_Latn''
     = Inr [''A. B.'', ''C. D.'', ''E.'']
   \<and> length [''A. B.'', ''C. D.'', ''E.''] \<noteq> (5::nat)"
  by (simp add: split_sentences_def five_three_splitters_def getitem_def flores_eng
      soft_hyphen_def)

section \<open>Language tags without a segmentation strategy\<close>

text \<open>
  Claim C2, as amended. For every language tag that is not a key of \<open>flores_codes\<close>
  (\<open>eng_Latn\<close> is a key), \<open>split_sentences\<close> raises \<open>KeyError\<close> carrying the tag,
  and \<open>translate_paragraph\<close> raises the same before any collaborator is called: the
  record of calls is empty, so the model is never invoked.
\<close>

theorem unregistered_language_KeyError:
  assumes "flores_codes lang = None"
  shows "split_sentences sp input_text lang = Inl (KeyError lang)
       \<and> translate_paragraph B sp c input_text lang tgt_lang = (Inl (KeyError lang), [])"
proof -
  from assms have "lang \<noteq> ''eng_Latn''" using flores_eng by auto
  with assms have "split_sentences sp input_text lang = Inl (KeyError lang)"
    by (simp add: split_sentences_def getitem_def)
  then show ?thesis by (simp add: translate_paragraph_def)
qed

theorem unregistered_language_KeyError_witness:
  "flores_codes ''fra_Latn'' = None
   \<and> split_sentences whole_text_splitters ''Bonjour.'' ''fra_Latn'' = Inl (KeyError ''fra_Latn'')
   \<and> translate_paragraph BATCH_SIZE whole_text_splitters upper_stub ''Bonjour.'' ''fra_Latn''
        ''hin_Deva'' = (Inl (KeyError ''fra_Latn''), [])"
proof -
  have none: "flores_codes ''fra_Latn'' = None" by (simp add: flores_codes_def)
  from unregistered_language_KeyError[OF none] none show ?thesis by simp
qed

text \<open>
  Claim C2 as stated fails: for the unregistered tag \<open>fra_Latn\<close> the exception of
  \<open>split_sentences\<close> is a \<open>KeyError\<close>, not an \<open>UnsupportedLanguageError\<close>, and
  \<open>batch_translate\<close>, which never looks at the language mapping, runs the batch through
  the stub collaborators and invokes the model once.
\<close>

theorem unregistered_language_not_UnsupportedLanguageError:
  "split_sentences whole_text_splitters ''Bonjour.'' ''fra_Latn'' = Inl (KeyError ''fra_Latn'')
   \<and> \<not> is_UnsupportedLanguageError (KeyError ''fra_Latn'')
   \<and> batch_translate 4 upper_stub [''Bonjour.''] ''fra_Latn'' ''hin_Deva''
       = (Inr [''BONJOUR.''], batch_events [''Bonjour.''])
   \<and> length (filter is_Generate (batch_events [''Bonjour.''])) = 1"
  by (simp add: split_sentences_def getitem_def flores_codes_def batch_translate_def py_range_def
      py_slice_def loop_body_def upper_stub_def to_upper_def batch_events_def Let_def upt_rec)

section \<open>The attention kernel handed to the loader\<close>

text \<open>
  Claim C8 says that a requested \<open>flash_attention_2\<close> kernel is used when both capability
  checks succeed. The source resolves the request into its local variable and then passes
  the literal \<open>"eager"\<close> to \<open>from_pretrained\<close>: with both checks true the model is still
  loaded with the eager kernel.
\<close>

theorem flash_attention_not_honoured:
  "attn_implementation
     (snd (initialize_model_and_tokenizer True True ckpt quantization ''flash_attention_2''))
   = ''eager''"
  by (simp add: initialize_model_and_tokenizer_def Let_def)

section \<open>Batching preserves positions\<close>








end
